theory Spec2Isabelle
  imports Complex_Main "HOL-Library.AList"
begin

section \<open>Supermarket receipt: data model\<close>

text \<open>
  A shallow embedding of the Python sources \<^verbatim>\<open>model_objects.py\<close>,
  \<^verbatim>\<open>discount_calculator.py\<close>, \<^verbatim>\<open>shopping_cart.py\<close>, \<^verbatim>\<open>receipt.py\<close> and
  \<^verbatim>\<open>teller.py\<close>.

  Numbers. Python's \<^verbatim>\<open>float\<close> quantities, prices and amounts are modelled by exact
  rationals (\<^typ>\<open>rat\<close>): every finite float is a rational, and the arithmetic is taken
  without rounding error; NaN and the infinities are outside the model. Python's
  unbounded \<^verbatim>\<open>int\<close> is \<^typ>\<open>int\<close>; \<^verbatim>\<open>//\<close> and \<^verbatim>\<open>%\<close> on integers are floor division
  and its remainder, which is what \<open>div\<close> and \<open>mod\<close> are on \<^typ>\<open>int\<close>.

  Errors. Every \<^verbatim>\<open>raise\<close> is a value \<open>Inl e\<close> of a sum type, and a caller that does
  not catch it passes it on.
\<close>

datatype ProductUnit = EACH | KILO

record Product =
  name :: string
  unit :: ProductUnit

record ProductQuantity =
  pq_product :: Product
  pq_quantity :: rat

text \<open>
  \<^verbatim>\<open>OfferType\<close> is an enumeration of four members. Python does not check the type of
  \<^verbatim>\<open>Offer.offer_type\<close>, and the dispatch of \<^verbatim>\<open>calculate_discount\<close> has a branch for
  a value outside the enumeration (the tests build one with value 99), so the model
  carries such values as \<open>UNKNOWN_OFFER_TYPE\<close>.
\<close>

datatype OfferType =
    THREE_FOR_TWO
  | TEN_PERCENT_DISCOUNT
  | TWO_FOR_AMOUNT
  | FIVE_FOR_AMOUNT
  | UNKNOWN_OFFER_TYPE int

record Offer =
  offer_type :: OfferType
  argument :: rat

text \<open>
  A description is built by an f-string. The model keeps the f-string's parts: literal
  text, an integer field and a float field, in their order; turning a number into its
  decimal text is Python's own \<^verbatim>\<open>str\<close>.
\<close>

datatype fpart = Lit string | IntField int | NumField rat

type_synonym fstring = "fpart list"

record Discount =
  discount_product :: Product
  description :: fstring
  discount_amount :: rat

record ReceiptItem =
  item_product :: Product
  item_quantity :: rat
  item_price :: rat
  item_total_price :: rat

record Receipt =
  receipt_items :: "ReceiptItem list"
  receipt_discounts :: "Discount list"

text \<open>
  The cart's \<^verbatim>\<open>_items\<close> list and its \<^verbatim>\<open>_product_quantities\<close> dictionary. A Python
  dictionary iterates in the order in which its keys were first inserted, and
  \<^verbatim>\<open>handle_offers\<close> iterates over it, so it is an association list:
  \<^const>\<open>AList.update\<close> replaces the value of a key in place and appends a new key at
  the end.
\<close>

record ShoppingCart =
  cart_items :: "ProductQuantity list"
  product_quantities :: "(Product \<times> rat) list"

datatype error =
    ValueError string
  | ZeroDivisionError
  | CatalogFailure Product

text \<open>
  The catalog is an external collaborator: \<^verbatim>\<open>unit_price\<close> either returns a price or
  raises. It is a partial map; a product without a price is a lookup that raises.
\<close>

type_synonym SupermarketCatalog = "Product \<rightharpoonup> rat"

record Teller =
  catalog :: SupermarketCatalog
  offers :: "Product \<rightharpoonup> Offer"

record DiscountCalculator =
  dc_product :: Product
  dc_quantity :: int
  dc_unit_price :: rat
  dc_offer :: Offer

section \<open>Python built-ins used by the code\<close>

text \<open>\<^verbatim>\<open>int(x)\<close> on a float truncates toward zero.\<close>

definition py_int :: "rat \<Rightarrow> int" where
  "py_int x = (if x < 0 then \<lceil>x\<rceil> else \<lfloor>x\<rfloor>)"

text \<open>\<^verbatim>\<open>sum(xs)\<close> adds from the left, starting at 0.\<close>

definition py_sum :: "rat list \<Rightarrow> rat" where
  "py_sum xs = foldl (+) 0 xs"

text \<open>\<^verbatim>\<open>round(x, ndigits)\<close> rounds to the nearest multiple of \<open>10\<^sup>-\<^sup>n\<close>, a tie to the even one.\<close>

definition round_half_even :: "rat \<Rightarrow> int" where
  "round_half_even x =
     (let f = \<lfloor>x\<rfloor>; d = x - of_int f
      in if d < 1 / 2 then f
         else if 1 / 2 < d then f + 1
         else if even f then f else f + 1)"

definition py_round :: "rat \<Rightarrow> nat \<Rightarrow> rat" where
  "py_round x ndigits = of_int (round_half_even (x * 10 ^ ndigits)) / 10 ^ ndigits"

definition dict_get :: "('k \<times> rat) list \<Rightarrow> 'k \<Rightarrow> rat \<Rightarrow> rat" where
  "dict_get d k dflt = (case map_of d k of None \<Rightarrow> dflt | Some v \<Rightarrow> v)"

section \<open>discount\_calculator.py\<close>

definition DiscountCalculator_init ::
  "Product \<Rightarrow> rat \<Rightarrow> rat \<Rightarrow> Offer \<Rightarrow> error + DiscountCalculator" where
  "DiscountCalculator_init product quantity unit_price offer =
     (if quantity \<le> 0 \<or> unit_price < 0
      then Inl (ValueError ''Quantity must be positive and unit price cannot be negative.'')
      else Inr \<lparr>dc_product = product, dc_quantity = py_int quantity,
                dc_unit_price = unit_price, dc_offer = offer\<rparr>)"

text \<open>
  The two static methods have the same body; \<^verbatim>\<open>calculate_group_discount\<close> ends without
  a \<^verbatim>\<open>return\<close> where \<^verbatim>\<open>amount_discount\<close> returns \<^verbatim>\<open>None\<close>, which is the same value.
  \<^verbatim>\<open>//\<close> raises on a zero divisor.
\<close>

definition calculate_group_discount ::
  "Product \<Rightarrow> int \<Rightarrow> rat \<Rightarrow> int \<Rightarrow> rat \<Rightarrow> error + Discount option" where
  "calculate_group_discount product quantity unit_price group_size amount =
     (if quantity \<ge> group_size then
        if group_size = 0 then Inl ZeroDivisionError
        else
          let number_of_groups = quantity div group_size;
              total = amount * of_int number_of_groups
                        + of_int (quantity mod group_size) * unit_price;
              discount_amount = of_int quantity * unit_price - total
          in Inr (Some \<lparr>discount_product = product,
                         description = [IntField group_size, Lit '' for '', NumField amount],
                         discount_amount = - discount_amount\<rparr>)
      else Inr None)"

definition amount_discount ::
  "Product \<Rightarrow> int \<Rightarrow> rat \<Rightarrow> int \<Rightarrow> rat \<Rightarrow> error + Discount option" where
  "amount_discount product quantity unit_price group_size amount =
     (if quantity \<ge> group_size then
        if group_size = 0 then Inl ZeroDivisionError
        else
          let number_of_groups = quantity div group_size;
              total = amount * of_int number_of_groups
                        + of_int (quantity mod group_size) * unit_price;
              discount_amount = of_int quantity * unit_price - total
          in Inr (Some \<lparr>discount_product = product,
                         description = [IntField group_size, Lit '' for '', NumField amount],
                         discount_amount = - discount_amount\<rparr>)
      else Inr None)"

definition three_for_two_discount :: "DiscountCalculator \<Rightarrow> error + Discount option" where
  "three_for_two_discount self =
     calculate_group_discount (dc_product self) (dc_quantity self) (dc_unit_price self)
       3 (2 * dc_unit_price self)"

definition two_for_amount_discount :: "DiscountCalculator \<Rightarrow> error + Discount option" where
  "two_for_amount_discount self =
     amount_discount (dc_product self) (dc_quantity self) (dc_unit_price self)
       2 (argument (dc_offer self))"

definition five_for_amount_discount :: "DiscountCalculator \<Rightarrow> error + Discount option" where
  "five_for_amount_discount self =
     amount_discount (dc_product self) (dc_quantity self) (dc_unit_price self)
       5 (argument (dc_offer self))"

definition ten_percent_discount :: "DiscountCalculator \<Rightarrow> error + Discount option" where
  "ten_percent_discount self =
     (if \<not> (0 \<le> argument (dc_offer self) \<and> argument (dc_offer self) \<le> 100)
      then Inl (ValueError ''Discount percentage must be between 0 and 100.'')
      else
        let discount_amount =
              - of_int (dc_quantity self) * dc_unit_price self
                * (argument (dc_offer self) / 100)
        in Inr (Some \<lparr>discount_product = dc_product self,
                       description = [NumField (argument (dc_offer self)), Lit ''% off''],
                       discount_amount = discount_amount\<rparr>))"

definition calculate_discount :: "DiscountCalculator \<Rightarrow> error + Discount option" where
  "calculate_discount self =
     (case offer_type (dc_offer self) of
        THREE_FOR_TWO \<Rightarrow> three_for_two_discount self
      | TWO_FOR_AMOUNT \<Rightarrow> two_for_amount_discount self
      | FIVE_FOR_AMOUNT \<Rightarrow> five_for_amount_discount self
      | TEN_PERCENT_DISCOUNT \<Rightarrow> ten_percent_discount self
      | UNKNOWN_OFFER_TYPE v \<Rightarrow> Inl (ValueError ''Unknown offer type''))"

text \<open>
  The discount engine as \<^verbatim>\<open>handle_offers\<close> calls it: the constructor, then
  \<^verbatim>\<open>calculate_discount\<close> on the object it built.
\<close>

definition compute_discount ::
  "Product \<Rightarrow> rat \<Rightarrow> rat \<Rightarrow> Offer \<Rightarrow> error + Discount option" where
  "compute_discount product quantity unit_price offer =
     (case DiscountCalculator_init product quantity unit_price offer of
        Inl e \<Rightarrow> Inl e
      | Inr discount_calculator \<Rightarrow> calculate_discount discount_calculator)"

section \<open>receipt.py\<close>

definition Receipt_init :: Receipt where
  "Receipt_init = \<lparr>receipt_items = [], receipt_discounts = []\<rparr>"

definition add_product :: "Receipt \<Rightarrow> Product \<Rightarrow> rat \<Rightarrow> rat \<Rightarrow> rat \<Rightarrow> Receipt" where
  "add_product self product quantity price total_price =
     self\<lparr>receipt_items := receipt_items self @
            [\<lparr>item_product = product, item_quantity = quantity,
              item_price = price, item_total_price = total_price\<rparr>]\<rparr>"

definition add_discount :: "Receipt \<Rightarrow> Discount \<Rightarrow> Receipt" where
  "add_discount self discount =
     self\<lparr>receipt_discounts := receipt_discounts self @ [discount]\<rparr>"

definition total_price :: "Receipt \<Rightarrow> rat" where
  "total_price self =
     (let total_price = py_sum (map item_total_price (receipt_items self));
          total_discounts = py_sum (map discount_amount (receipt_discounts self));
          total = total_price + total_discounts
      in py_round total 2)"




section \<open>shopping\_cart.py\<close>

definition ShoppingCart_init :: ShoppingCart where
  "ShoppingCart_init = \<lparr>cart_items = [], product_quantities = []\<rparr>"

definition add_item_quantity :: "ShoppingCart \<Rightarrow> Product \<Rightarrow> rat \<Rightarrow> ShoppingCart" where
  "add_item_quantity self product quantity =
     self\<lparr>cart_items := cart_items self @ [\<lparr>pq_product = product, pq_quantity = quantity\<rparr>],
          product_quantities :=
            AList.update product (dict_get (product_quantities self) product 0 + quantity)
              (product_quantities self)\<rparr>"

definition add_item :: "ShoppingCart \<Rightarrow> Product \<Rightarrow> ShoppingCart" where
  "add_item self product = add_item_quantity self product 1"

text \<open>A cart is reached from the empty one by a sequence of the two additions.\<close>

datatype cart_op =
    AddItem Product
  | AddItemQuantity Product rat

fun apply_cart_op :: "ShoppingCart \<Rightarrow> cart_op \<Rightarrow> ShoppingCart" where
  "apply_cart_op c (AddItem p) = add_item c p"
| "apply_cart_op c (AddItemQuantity p q) = add_item_quantity c p q"

definition run_cart :: "cart_op list \<Rightarrow> ShoppingCart" where
  "run_cart ops = foldl apply_cart_op ShoppingCart_init ops"

definition unit_price :: "SupermarketCatalog \<Rightarrow> Product \<Rightarrow> error + rat" where
  "unit_price cat product =
     (case cat product of None \<Rightarrow> Inl (CatalogFailure product) | Some price \<Rightarrow> Inr price)"

text \<open>
  The loop of \<^verbatim>\<open>handle_offers\<close> over the dictionary's items. Nothing catches an
  exception, so the first one ends the loop and the method. A \<^verbatim>\<open>Discount\<close> object is
  always true in \<^verbatim>\<open>if discount\<close>; only \<^verbatim>\<open>None\<close> is skipped.
\<close>

fun handle_offers_loop ::
  "(Product \<times> rat) list \<Rightarrow> Receipt \<Rightarrow> (Product \<rightharpoonup> Offer) \<Rightarrow> SupermarketCatalog
     \<Rightarrow> error + Receipt" where
  "handle_offers_loop [] receipt offs cat = Inr receipt"
| "handle_offers_loop ((product, quantity) # rest) receipt offs cat =
     (case offs product of
        None \<Rightarrow> handle_offers_loop rest receipt offs cat
      | Some offer \<Rightarrow>
          (case unit_price cat product of
             Inl e \<Rightarrow> Inl e
           | Inr price \<Rightarrow>
               (case compute_discount product quantity price offer of
                  Inl e \<Rightarrow> Inl e
                | Inr None \<Rightarrow> handle_offers_loop rest receipt offs cat
                | Inr (Some discount) \<Rightarrow>
                    handle_offers_loop rest (add_discount receipt discount) offs cat)))"

definition handle_offers ::
  "ShoppingCart \<Rightarrow> Receipt \<Rightarrow> (Product \<rightharpoonup> Offer) \<Rightarrow> SupermarketCatalog \<Rightarrow> error + Receipt" where
  "handle_offers self receipt offs cat =
     handle_offers_loop (product_quantities self) receipt offs cat"

section \<open>teller.py\<close>

definition Teller_init :: "SupermarketCatalog \<Rightarrow> Teller" where
  "Teller_init cat = \<lparr>catalog = cat, offers = Map.empty\<rparr>"

definition add_special_offer :: "Teller \<Rightarrow> OfferType \<Rightarrow> Product \<Rightarrow> rat \<Rightarrow> Teller" where
  "add_special_offer self ot product arg =
     self\<lparr>offers := (offers self)(product \<mapsto> \<lparr>offer_type = ot, argument = arg\<rparr>)\<rparr>"

definition calculate_total_price :: "rat \<Rightarrow> rat \<Rightarrow> rat" where
  "calculate_total_price quantity price = quantity * price"

definition process_item :: "Teller \<Rightarrow> Product \<Rightarrow> rat \<Rightarrow> Receipt \<Rightarrow> error + Receipt" where
  "process_item self product quantity receipt =
     (case unit_price (catalog self) product of
        Inl e \<Rightarrow> Inl e
      | Inr price \<Rightarrow>
          Inr (add_product receipt product quantity price
                 (calculate_total_price quantity price)))"

fun add_cart_items_loop ::
  "Teller \<Rightarrow> ProductQuantity list \<Rightarrow> Receipt \<Rightarrow> error + Receipt" where
  "add_cart_items_loop self [] receipt = Inr receipt"
| "add_cart_items_loop self (item # rest) receipt =
     (case process_item self (pq_product item) (pq_quantity item) receipt of
        Inl e \<Rightarrow> Inl e
      | Inr receipt' \<Rightarrow> add_cart_items_loop self rest receipt')"

definition add_cart_items_to_receipt ::
  "Teller \<Rightarrow> ShoppingCart \<Rightarrow> Receipt \<Rightarrow> error + Receipt" where
  "add_cart_items_to_receipt self shopping_cart receipt =
     add_cart_items_loop self (cart_items shopping_cart) receipt"

definition apply_offers :: "Teller \<Rightarrow> ShoppingCart \<Rightarrow> Receipt \<Rightarrow> error + Receipt" where
  "apply_offers self shopping_cart receipt =
     handle_offers shopping_cart receipt (offers self) (catalog self)"

definition checks_out_articles_from :: "Teller \<Rightarrow> ShoppingCart \<Rightarrow> error + Receipt" where
  "checks_out_articles_from self shopping_cart =
     (case add_cart_items_to_receipt self shopping_cart Receipt_init of
        Inl e \<Rightarrow> Inl e
      | Inr receipt \<Rightarrow> apply_offers self shopping_cart receipt)"

section \<open>Products of the test suite\<close>

text \<open>The products that \<^verbatim>\<open>tests/test_supermarket.py\<close> sets up, used for concrete runs.\<close>

definition toothbrush :: Product where
  "toothbrush = \<lparr>name = ''toothbrush'', unit = EACH\<rparr>"

definition rice :: Product where
  "rice = \<lparr>name = ''rice'', unit = EACH\<rparr>"

definition apples :: Product where
  "apples = \<lparr>name = ''apples'', unit = KILO\<rparr>"

definition cherry_tomatoes :: Product where
  "cherry_tomatoes = \<lparr>name = ''cherry tomato box'', unit = EACH\<rparr>"

text \<open>The prices of the mock catalog of \<^verbatim>\<open>TestSupermarket\<close>.\<close>

definition test_catalog :: SupermarketCatalog where
  "test_catalog = [toothbrush \<mapsto> 99 / 100, rice \<mapsto> 299 / 100, apples \<mapsto> 199 / 100,
                   cherry_tomatoes \<mapsto> 69 / 100]"

section \<open>Reference definitions\<close>








section \<open>The discount engine\<close>

subsection \<open>Accepted inputs and the group formula\<close>

lemma py_int_pos: "0 \<le> q \<Longrightarrow> py_int q = \<lfloor>q\<rfloor>"
  by (simp add: py_int_def)

lemma compute_discount_accepted:
  "0 < quantity \<Longrightarrow> 0 \<le> price \<Longrightarrow>
   compute_discount product quantity price offer =
     calculate_discount \<lparr>dc_product = product, dc_quantity = \<lfloor>quantity\<rfloor>,
                         dc_unit_price = price, dc_offer = offer\<rparr>"
  by (simp add: compute_discount_def DiscountCalculator_init_def py_int_pos)

lemma group_split:
  fixes n g :: int and p a :: rat
  shows "of_int n * p - (a * of_int (n div g) + of_int (n mod g) * p)
         = of_int (n div g) * (of_int g * p - a)"
proof -
  have "(of_int n :: rat) = of_int (g * (n div g) + n mod g)" by simp
  also have "\<dots> = of_int g * of_int (n div g) + of_int (n mod g)"
    by (simp only: of_int_add of_int_mult)
  finally have e: "(of_int n :: rat) = of_int g * of_int (n div g) + of_int (n mod g)" .
  show ?thesis by (subst e) (simp add: algebra_simps)
qed

text \<open>
  Floor division of the integer part is the floor of the quotient, so the group formula of
  the specification, read on a fractional quantity, has the value that the code computes
  on the truncated one.
\<close>

lemma int_div_bounds:
  fixes n g :: int
  assumes "0 < g"
  shows "(n div g) * g \<le> n" and "n < (n div g + 1) * g"
proof -
  have e: "n = (n div g) * g + n mod g" by simp
  have "0 \<le> n mod g" "n mod g < g" using assms by simp_all
  with e show "(n div g) * g \<le> n" by linarith
  from e \<open>n mod g < g\<close> have "n < (n div g) * g + g" by linarith
  then show "n < (n div g + 1) * g" by (simp add: algebra_simps)
qed

lemma floor_div_int:
  fixes q :: rat and g :: int
  assumes "0 < g"
  shows "\<lfloor>q / of_int g\<rfloor> = \<lfloor>q\<rfloor> div g"
proof (rule floor_unique)
  have g: "(0::rat) < of_int g" using assms by simp
  have "(of_int ((\<lfloor>q\<rfloor> div g) * g) :: rat) \<le> of_int \<lfloor>q\<rfloor>"
    using int_div_bounds(1) [OF assms] by (simp only: of_int_le_iff)
  also have "\<dots> \<le> q" by simp
  finally show "of_int (\<lfloor>q\<rfloor> div g) \<le> q / of_int g"
    using g by (simp add: pos_le_divide_eq)
  have "\<lfloor>q\<rfloor> + 1 \<le> (\<lfloor>q\<rfloor> div g + 1) * g"
    using int_div_bounds(2) [OF assms, of "\<lfloor>q\<rfloor>"] by simp
  then have "(of_int (\<lfloor>q\<rfloor> + 1) :: rat) \<le> of_int ((\<lfloor>q\<rfloor> div g + 1) * g)"
    by (simp only: of_int_le_iff)
  moreover have "q < of_int (\<lfloor>q\<rfloor> + 1)" by simp linarith
  ultimately have "q < of_int ((\<lfloor>q\<rfloor> div g + 1) * g)" by linarith
  then show "q / of_int g < of_int (\<lfloor>q\<rfloor> div g) + 1"
    using g by (simp add: pos_divide_less_eq)
qed

lemma spec_formula_truncation:
  fixes q p a :: rat and g :: int
  assumes "0 < g"
  shows "q * p - (of_int \<lfloor>q / of_int g\<rfloor> * a + (q - of_int g * of_int \<lfloor>q / of_int g\<rfloor>) * p)
       = of_int \<lfloor>q\<rfloor> * p - (a * of_int (\<lfloor>q\<rfloor> div g) + of_int (\<lfloor>q\<rfloor> mod g) * p)"
proof -
  have "of_int \<lfloor>q\<rfloor> * p - (a * of_int (\<lfloor>q\<rfloor> div g) + of_int (\<lfloor>q\<rfloor> mod g) * p)
        = of_int (\<lfloor>q\<rfloor> div g) * (of_int g * p - a)"
    by (rule group_split)
  then show ?thesis
    by (simp add: floor_div_int [OF assms] algebra_simps)
qed

lemma engine_group_amount:
  fixes total price a :: rat and g :: int
  assumes "0 < g" and "of_int g \<le> total"
  shows "amount_discount product \<lfloor>total\<rfloor> price g a =
           Inr (Some \<lparr>discount_product = product,
                  description = [IntField g, Lit '' for '', NumField a],
                  discount_amount =
                    - (total * price
                       - (of_int \<lfloor>total / of_int g\<rfloor> * a
                          + (total - of_int g * of_int \<lfloor>total / of_int g\<rfloor>) * price))\<rparr>)"
proof -
  from assms(2) have "g \<le> \<lfloor>total\<rfloor>" by (simp add: le_floor_iff)
  with assms(1) show ?thesis
    by (simp add: amount_discount_def Let_def spec_formula_truncation [OF assms(1)])
qed

lemma engine_offers_amount:
  fixes total price arg :: rat
  assumes "0 < total" and "0 \<le> price"
  shows "(3 \<le> total \<longrightarrow>
            compute_discount product total price \<lparr>offer_type = THREE_FOR_TWO, argument = arg\<rparr>
            = Inr (Some \<lparr>discount_product = product,
                  description = [IntField 3, Lit '' for '', NumField (2 * price)],
                  discount_amount =
                    - (total * price
                       - (of_int \<lfloor>total / 3\<rfloor> * (2 * price)
                          + (total - 3 * of_int \<lfloor>total / 3\<rfloor>) * price))\<rparr>))
       \<and> (2 \<le> total \<longrightarrow>
            compute_discount product total price \<lparr>offer_type = TWO_FOR_AMOUNT, argument = arg\<rparr>
            = Inr (Some \<lparr>discount_product = product,
                  description = [IntField 2, Lit '' for '', NumField arg],
                  discount_amount =
                    - (total * price
                       - (of_int \<lfloor>total / 2\<rfloor> * arg
                          + (total - 2 * of_int \<lfloor>total / 2\<rfloor>) * price))\<rparr>))
       \<and> (5 \<le> total \<longrightarrow>
            compute_discount product total price \<lparr>offer_type = FIVE_FOR_AMOUNT, argument = arg\<rparr>
            = Inr (Some \<lparr>discount_product = product,
                  description = [IntField 5, Lit '' for '', NumField arg],
                  discount_amount =
                    - (total * price
                       - (of_int \<lfloor>total / 5\<rfloor> * arg
                          + (total - 5 * of_int \<lfloor>total / 5\<rfloor>) * price))\<rparr>))"
proof -
  note c = compute_discount_accepted [OF assms]
  have same: "\<And>q p g a. calculate_group_discount product q p g a = amount_discount product q p g a"
    by (simp add: calculate_group_discount_def amount_discount_def)
  have t3: "3 \<le> total \<Longrightarrow>
            compute_discount product total price \<lparr>offer_type = THREE_FOR_TWO, argument = arg\<rparr>
            = Inr (Some \<lparr>discount_product = product,
                  description = [IntField 3, Lit '' for '', NumField (2 * price)],
                  discount_amount =
                    - (total * price
                       - (of_int \<lfloor>total / 3\<rfloor> * (2 * price)
                          + (total - 3 * of_int \<lfloor>total / 3\<rfloor>) * price))\<rparr>)"
    using engine_group_amount [of 3 total product price "2 * price"]
    by (simp add: c calculate_discount_def three_for_two_discount_def same)
  have t2: "2 \<le> total \<Longrightarrow>
            compute_discount product total price \<lparr>offer_type = TWO_FOR_AMOUNT, argument = arg\<rparr>
            = Inr (Some \<lparr>discount_product = product,
                  description = [IntField 2, Lit '' for '', NumField arg],
                  discount_amount =
                    - (total * price
                       - (of_int \<lfloor>total / 2\<rfloor> * arg
                          + (total - 2 * of_int \<lfloor>total / 2\<rfloor>) * price))\<rparr>)"
    using engine_group_amount [of 2 total product price arg]
    by (simp add: c calculate_discount_def two_for_amount_discount_def)
  have t5: "5 \<le> total \<Longrightarrow>
            compute_discount product total price \<lparr>offer_type = FIVE_FOR_AMOUNT, argument = arg\<rparr>
            = Inr (Some \<lparr>discount_product = product,
                  description = [IntField 5, Lit '' for '', NumField arg],
                  discount_amount =
                    - (total * price
                       - (of_int \<lfloor>total / 5\<rfloor> * arg
                          + (total - 5 * of_int \<lfloor>total / 5\<rfloor>) * price))\<rparr>)"
    using engine_group_amount [of 5 total product price arg]
    by (simp add: c calculate_discount_def five_for_amount_discount_def)
  from t3 t2 t5 show ?thesis by blast
qed

subsection \<open>Group offers\<close>

text \<open>
  C1. For a quantity that reaches the group size, both group-discount methods return a
  discount whose amount is
  \<open>-(quantity * unit_price - ((quantity div group_size) * amount + (quantity mod group_size) * unit_price))\<close>;
  the dispatch sends THREE\_FOR\_TWO to group size 3 with amount \<open>2 * unit_price\<close>,
  TWO\_FOR\_AMOUNT to group size 2 and FIVE\_FOR\_AMOUNT to group size 5 with the offer's
  argument; FIVE\_FOR\_AMOUNT on 16 units at price \<open>p\<close> with argument \<open>a\<close> gives
  \<open>-(16 * p - (3 * a + p))\<close>; and on an accepted quantity \<open>total\<close>, whole or fractional,
  that reaches the group size \<open>g\<close> the engine's amount is
  \<open>-(total * p - (floor (total / g) * bundle + (total - g * floor (total / g)) * p))\<close>.
\<close>

theorem group_discount_amount:
  assumes "group_size \<le> quantity" and "group_size \<noteq> 0"
  shows "amount_discount product quantity price group_size amount =
           Inr (Some \<lparr>discount_product = product,
                  description = [IntField group_size, Lit '' for '', NumField amount],
                  discount_amount =
                    - (of_int quantity * price
                       - (of_int (quantity div group_size) * amount
                          + of_int (quantity mod group_size) * price))\<rparr>)
       \<and> calculate_group_discount product quantity price group_size amount
           = amount_discount product quantity price group_size amount
       \<and> calculate_discount \<lparr>dc_product = product, dc_quantity = quantity, dc_unit_price = price,
             dc_offer = \<lparr>offer_type = THREE_FOR_TWO, argument = arg\<rparr>\<rparr>
           = calculate_group_discount product quantity price 3 (2 * price)
       \<and> calculate_discount \<lparr>dc_product = product, dc_quantity = quantity, dc_unit_price = price,
             dc_offer = \<lparr>offer_type = TWO_FOR_AMOUNT, argument = arg\<rparr>\<rparr>
           = amount_discount product quantity price 2 arg
       \<and> calculate_discount \<lparr>dc_product = product, dc_quantity = quantity, dc_unit_price = price,
             dc_offer = \<lparr>offer_type = FIVE_FOR_AMOUNT, argument = arg\<rparr>\<rparr>
           = amount_discount product quantity price 5 arg
       \<and> (0 \<le> price \<longrightarrow>
            map_sum id (map_option discount_amount)
              (compute_discount product 16 price \<lparr>offer_type = FIVE_FOR_AMOUNT, argument = arg\<rparr>)
            = Inr (Some (- (16 * price - (3 * arg + price)))))
       \<and> (0 < total_quantity \<and> 0 \<le> price \<longrightarrow>
            (3 \<le> total_quantity \<longrightarrow>
            compute_discount product total_quantity price \<lparr>offer_type = THREE_FOR_TWO, argument = arg\<rparr>
            = Inr (Some \<lparr>discount_product = product,
                  description = [IntField 3, Lit '' for '', NumField (2 * price)],
                  discount_amount =
                    - (total_quantity * price
                       - (of_int \<lfloor>total_quantity / 3\<rfloor> * (2 * price)
                          + (total_quantity - 3 * of_int \<lfloor>total_quantity / 3\<rfloor>) * price))\<rparr>))
       \<and> (2 \<le> total_quantity \<longrightarrow>
            compute_discount product total_quantity price \<lparr>offer_type = TWO_FOR_AMOUNT, argument = arg\<rparr>
            = Inr (Some \<lparr>discount_product = product,
                  description = [IntField 2, Lit '' for '', NumField arg],
                  discount_amount =
                    - (total_quantity * price
                       - (of_int \<lfloor>total_quantity / 2\<rfloor> * arg
                          + (total_quantity - 2 * of_int \<lfloor>total_quantity / 2\<rfloor>) * price))\<rparr>))
       \<and> (5 \<le> total_quantity \<longrightarrow>
            compute_discount product total_quantity price \<lparr>offer_type = FIVE_FOR_AMOUNT, argument = arg\<rparr>
            = Inr (Some \<lparr>discount_product = product,
                  description = [IntField 5, Lit '' for '', NumField arg],
                  discount_amount =
                    - (total_quantity * price
                       - (of_int \<lfloor>total_quantity / 5\<rfloor> * arg
                          + (total_quantity - 5 * of_int \<lfloor>total_quantity / 5\<rfloor>) * price))\<rparr>)))"
proof -
  have a: "amount_discount product quantity price group_size amount =
           Inr (Some \<lparr>discount_product = product,
                  description = [IntField group_size, Lit '' for '', NumField amount],
                  discount_amount =
                    - (of_int quantity * price
                       - (of_int (quantity div group_size) * amount
                          + of_int (quantity mod group_size) * price))\<rparr>)"
    using assms by (simp add: amount_discount_def Let_def mult.commute)
  have b: "calculate_group_discount product quantity price group_size amount
           = amount_discount product quantity price group_size amount"
    by (simp add: calculate_group_discount_def amount_discount_def)
  have c: "calculate_discount \<lparr>dc_product = product, dc_quantity = quantity, dc_unit_price = price,
             dc_offer = \<lparr>offer_type = THREE_FOR_TWO, argument = arg\<rparr>\<rparr>
           = calculate_group_discount product quantity price 3 (2 * price)"
    by (simp add: calculate_discount_def three_for_two_discount_def)
  have d: "calculate_discount \<lparr>dc_product = product, dc_quantity = quantity, dc_unit_price = price,
             dc_offer = \<lparr>offer_type = TWO_FOR_AMOUNT, argument = arg\<rparr>\<rparr>
           = amount_discount product quantity price 2 arg"
    by (simp add: calculate_discount_def two_for_amount_discount_def)
  have e: "calculate_discount \<lparr>dc_product = product, dc_quantity = quantity, dc_unit_price = price,
             dc_offer = \<lparr>offer_type = FIVE_FOR_AMOUNT, argument = arg\<rparr>\<rparr>
           = amount_discount product quantity price 5 arg"
    by (simp add: calculate_discount_def five_for_amount_discount_def)
  have f: "0 \<le> price \<longrightarrow>
            map_sum id (map_option discount_amount)
              (compute_discount product 16 price \<lparr>offer_type = FIVE_FOR_AMOUNT, argument = arg\<rparr>)
            = Inr (Some (- (16 * price - (3 * arg + price))))"
    by (simp add: compute_discount_def DiscountCalculator_init_def py_int_def
        calculate_discount_def five_for_amount_discount_def amount_discount_def Let_def)
  have g: "0 < total_quantity \<and> 0 \<le> price \<longrightarrow>
            (3 \<le> total_quantity \<longrightarrow>
            compute_discount product total_quantity price \<lparr>offer_type = THREE_FOR_TWO, argument = arg\<rparr>
            = Inr (Some \<lparr>discount_product = product,
                  description = [IntField 3, Lit '' for '', NumField (2 * price)],
                  discount_amount =
                    - (total_quantity * price
                       - (of_int \<lfloor>total_quantity / 3\<rfloor> * (2 * price)
                          + (total_quantity - 3 * of_int \<lfloor>total_quantity / 3\<rfloor>) * price))\<rparr>))
       \<and> (2 \<le> total_quantity \<longrightarrow>
            compute_discount product total_quantity price \<lparr>offer_type = TWO_FOR_AMOUNT, argument = arg\<rparr>
            = Inr (Some \<lparr>discount_product = product,
                  description = [IntField 2, Lit '' for '', NumField arg],
                  discount_amount =
                    - (total_quantity * price
                       - (of_int \<lfloor>total_quantity / 2\<rfloor> * arg
                          + (total_quantity - 2 * of_int \<lfloor>total_quantity / 2\<rfloor>) * price))\<rparr>))
       \<and> (5 \<le> total_quantity \<longrightarrow>
            compute_discount product total_quantity price \<lparr>offer_type = FIVE_FOR_AMOUNT, argument = arg\<rparr>
            = Inr (Some \<lparr>discount_product = product,
                  description = [IntField 5, Lit '' for '', NumField arg],
                  discount_amount =
                    - (total_quantity * price
                       - (of_int \<lfloor>total_quantity / 5\<rfloor> * arg
                          + (total_quantity - 5 * of_int \<lfloor>total_quantity / 5\<rfloor>) * price))\<rparr>))"
    using engine_offers_amount [of total_quantity price product arg] by blast
  from a b c d e f g show ?thesis by blast
qed

theorem group_discount_amount_witness:
  "((5::int) \<le> 16 \<and> (5::int) \<noteq> 0
    \<and> map_sum id (map_option discount_amount) (amount_discount apples 16 (199/100) 5 (799/100))
        = Inr (Some (- (16 * (199/100) - (3 * (799/100) + 1 * (199/100)))))
    \<and> map_sum id (map_option discount_amount)
         (compute_discount apples 16 (199/100) \<lparr>offer_type = FIVE_FOR_AMOUNT, argument = 799/100\<rparr>)
        = Inr (Some (- (588/100))))
   \<and> ((0::rat) < 15/2 \<and> (0::rat) \<le> 199/100 \<and> (5::rat) \<le> 15/2
    \<and> map_sum id (map_option discount_amount)
         (compute_discount apples (15/2) (199/100)
            \<lparr>offer_type = FIVE_FOR_AMOUNT, argument = 799/100\<rparr>)
        = Inr (Some (- (15/2 * (199/100) - (1 * (799/100) + (15/2 - 5 * 1) * (199/100))))))"
proof -
  note t = group_discount_amount
    [where group_size = 5 and quantity = 16 and product = apples and price = "199/100"
       and amount = "799/100" and arg = "799/100" and total_quantity = "15/2"]
  have f: "\<lfloor>3 / 2 :: rat\<rfloor> = 1" by (simp add: floor_eq_iff)
  have a: "(5::int) \<le> 16 \<and> (5::int) \<noteq> 0
    \<and> map_sum id (map_option discount_amount) (amount_discount apples 16 (199/100) 5 (799/100))
        = Inr (Some (- (16 * (199/100) - (3 * (799/100) + 1 * (199/100)))))
    \<and> map_sum id (map_option discount_amount)
         (compute_discount apples 16 (199/100) \<lparr>offer_type = FIVE_FOR_AMOUNT, argument = 799/100\<rparr>)
        = Inr (Some (- (588/100)))"
    using t by simp
  have b: "(0::rat) < 15/2 \<and> (0::rat) \<le> 199/100 \<and> (5::rat) \<le> 15/2
    \<and> map_sum id (map_option discount_amount)
         (compute_discount apples (15/2) (199/100)
            \<lparr>offer_type = FIVE_FOR_AMOUNT, argument = 799/100\<rparr>)
        = Inr (Some (- (15/2 * (199/100) - (1 * (799/100) + (15/2 - 5 * 1) * (199/100)))))"
    using t by (simp add: f)
  from a b show ?thesis by (rule conjI)
qed

text \<open>
  C2. On an accepted input (quantity above 0, unit price at least 0) each group offer
  gives no discount below its group size and a discount record from the group size on;
  the record is there also when its amount is 0, as it is when the bundle price equals
  group size times unit price.
\<close>

theorem group_offer_discount_presence:
  assumes "0 < quantity" and "0 \<le> price"
  shows "(quantity < 3 \<longrightarrow>
            compute_discount product quantity price \<lparr>offer_type = THREE_FOR_TWO, argument = a\<rparr>
              = Inr None)
       \<and> (3 \<le> quantity \<longrightarrow>
            (\<exists>d. compute_discount product quantity price
                    \<lparr>offer_type = THREE_FOR_TWO, argument = a\<rparr> = Inr (Some d)))
       \<and> (quantity < 2 \<longrightarrow>
            compute_discount product quantity price \<lparr>offer_type = TWO_FOR_AMOUNT, argument = a\<rparr>
              = Inr None)
       \<and> (2 \<le> quantity \<longrightarrow>
            (\<exists>d. compute_discount product quantity price
                    \<lparr>offer_type = TWO_FOR_AMOUNT, argument = a\<rparr> = Inr (Some d)
                  \<and> (a = 2 * price \<longrightarrow> discount_amount d = 0)))
       \<and> (quantity < 5 \<longrightarrow>
            compute_discount product quantity price \<lparr>offer_type = FIVE_FOR_AMOUNT, argument = a\<rparr>
              = Inr None)
       \<and> (5 \<le> quantity \<longrightarrow>
            (\<exists>d. compute_discount product quantity price
                    \<lparr>offer_type = FIVE_FOR_AMOUNT, argument = a\<rparr> = Inr (Some d)
                  \<and> (a = 5 * price \<longrightarrow> discount_amount d = 0)))"
proof -
  note c = compute_discount_accepted [OF assms]
  have t1: "quantity < 3 \<longrightarrow>
            compute_discount product quantity price \<lparr>offer_type = THREE_FOR_TWO, argument = a\<rparr>
              = Inr None"
    by (simp add: c calculate_discount_def three_for_two_discount_def
        calculate_group_discount_def floor_less_iff)
  have t2: "3 \<le> quantity \<longrightarrow>
            (\<exists>d. compute_discount product quantity price
                    \<lparr>offer_type = THREE_FOR_TWO, argument = a\<rparr> = Inr (Some d))"
    by (simp add: c calculate_discount_def three_for_two_discount_def
        calculate_group_discount_def le_floor_iff Let_def)
  have t3: "quantity < 2 \<longrightarrow>
            compute_discount product quantity price \<lparr>offer_type = TWO_FOR_AMOUNT, argument = a\<rparr>
              = Inr None"
    by (simp add: c calculate_discount_def two_for_amount_discount_def
        amount_discount_def floor_less_iff)
  have t4: "2 \<le> quantity \<longrightarrow>
            (\<exists>d. compute_discount product quantity price
                    \<lparr>offer_type = TWO_FOR_AMOUNT, argument = a\<rparr> = Inr (Some d)
                  \<and> (a = 2 * price \<longrightarrow> discount_amount d = 0))"
    using group_split [of "\<lfloor>quantity\<rfloor>" price "2 * price" 2]
    by (simp add: c calculate_discount_def two_for_amount_discount_def
        amount_discount_def le_floor_iff Let_def)
  have t5: "quantity < 5 \<longrightarrow>
            compute_discount product quantity price \<lparr>offer_type = FIVE_FOR_AMOUNT, argument = a\<rparr>
              = Inr None"
    by (simp add: c calculate_discount_def five_for_amount_discount_def
        amount_discount_def floor_less_iff)
  have t6: "5 \<le> quantity \<longrightarrow>
            (\<exists>d. compute_discount product quantity price
                    \<lparr>offer_type = FIVE_FOR_AMOUNT, argument = a\<rparr> = Inr (Some d)
                  \<and> (a = 5 * price \<longrightarrow> discount_amount d = 0))"
    using group_split [of "\<lfloor>quantity\<rfloor>" price "5 * price" 5]
    by (simp add: c calculate_discount_def five_for_amount_discount_def
        amount_discount_def le_floor_iff Let_def)
  from t1 t2 t3 t4 t5 t6 show ?thesis by blast
qed

theorem group_offer_discount_presence_witness:
  "(0::rat) < 2 \<and> (0::rat) \<le> 69/100
   \<and> compute_discount cherry_tomatoes 2 (69/100) \<lparr>offer_type = THREE_FOR_TWO, argument = 0\<rparr>
       = Inr None
   \<and> compute_discount cherry_tomatoes 2 (69/100) \<lparr>offer_type = TWO_FOR_AMOUNT, argument = 138/100\<rparr>
       = Inr (Some \<lparr>discount_product = cherry_tomatoes,
                     description = [IntField 2, Lit '' for '', NumField (138/100)],
                     discount_amount = 0\<rparr>)"
  using group_offer_discount_presence
    [where quantity = 2 and price = "69/100" and product = cherry_tomatoes and a = "138/100"]
  by (auto simp add: compute_discount_def DiscountCalculator_init_def py_int_def
        calculate_discount_def three_for_two_discount_def two_for_amount_discount_def
        calculate_group_discount_def amount_discount_def Let_def)

subsection \<open>The percentage offer\<close>

lemma ten_percent_accepted:
  assumes "0 < quantity" and "0 \<le> price"
  shows "compute_discount product quantity price \<lparr>offer_type = TEN_PERCENT_DISCOUNT, argument = a\<rparr>
         = (if 0 \<le> a \<and> a \<le> 100
            then Inr (Some \<lparr>discount_product = product,
                             description = [NumField a, Lit ''% off''],
                             discount_amount = - (of_int \<lfloor>quantity\<rfloor> * price * (a / 100))\<rparr>)
            else Inl (ValueError ''Discount percentage must be between 0 and 100.''))"
  by (simp add: compute_discount_accepted [OF assms] calculate_discount_def
      ten_percent_discount_def)




subsection \<open>The sign of a discount\<close>

lemma compute_discount_Inr_accepted:
  "compute_discount product quantity price offer = Inr r \<Longrightarrow> 0 < quantity \<and> 0 \<le> price"
  by (auto simp add: compute_discount_def DiscountCalculator_init_def split: if_splits)








subsection \<open>Truncation of the quantity\<close>

text \<open>
  C9. On an accepted input the constructor stores \<open>int(quantity)\<close>, the quantity
  truncated toward zero, which for the accepted (positive) quantities is the integer
  part: it is at most the quantity and less than one below it. Every offer computation
  reads only the stored integer, so two accepted quantities with the same integer part
  give the same result; the percentage discount is taken on the integer part; and 2.5
  is treated as 2 under every offer.
\<close>

theorem quantity_truncated:
  assumes "0 < quantity" and "0 \<le> price"
  shows "DiscountCalculator_init product quantity price offer
           = Inr \<lparr>dc_product = product, dc_quantity = py_int quantity,
                   dc_unit_price = price, dc_offer = offer\<rparr>
       \<and> compute_discount product quantity price offer
           = calculate_discount \<lparr>dc_product = product, dc_quantity = py_int quantity,
                                   dc_unit_price = price, dc_offer = offer\<rparr>
       \<and> 0 \<le> py_int quantity
       \<and> of_int (py_int quantity) \<le> quantity
       \<and> quantity < of_int (py_int quantity) + 1
       \<and> (0 < quantity' \<and> py_int quantity' = py_int quantity \<longrightarrow>
            compute_discount product quantity' price offer
              = compute_discount product quantity price offer)
       \<and> (0 \<le> a \<and> a \<le> 100 \<longrightarrow>
            map_sum id (map_option discount_amount)
              (compute_discount product quantity price
                 \<lparr>offer_type = TEN_PERCENT_DISCOUNT, argument = a\<rparr>)
            = Inr (Some (- (of_int (py_int quantity) * price * (a / 100)))))
       \<and> py_int (5 / 2) = 2
       \<and> compute_discount product (5 / 2) price offer = compute_discount product 2 price offer"
proof -
  have q: "py_int quantity = \<lfloor>quantity\<rfloor>"
    using assms(1) by (simp add: py_int_pos)
  have i: "DiscountCalculator_init product quantity price offer
           = Inr \<lparr>dc_product = product, dc_quantity = py_int quantity,
                   dc_unit_price = price, dc_offer = offer\<rparr>"
    using assms by (simp add: DiscountCalculator_init_def)
  have c: "compute_discount product quantity price offer
           = calculate_discount \<lparr>dc_product = product, dc_quantity = py_int quantity,
                                   dc_unit_price = price, dc_offer = offer\<rparr>"
    by (simp add: compute_discount_def i)
  have b: "0 \<le> py_int quantity" "of_int (py_int quantity) \<le> quantity"
    "quantity < of_int (py_int quantity) + 1"
    using assms(1) unfolding q by simp_all linarith
  have s: "0 < quantity' \<and> py_int quantity' = py_int quantity \<longrightarrow>
            compute_discount product quantity' price offer
              = compute_discount product quantity price offer"
  proof
    assume h: "0 < quantity' \<and> py_int quantity' = py_int quantity"
    then have "0 \<le> quantity'" by simp
    from py_int_pos [OF this] h q have "\<lfloor>quantity'\<rfloor> = \<lfloor>quantity\<rfloor>"
      by simp
    with h show "compute_discount product quantity' price offer
              = compute_discount product quantity price offer"
      using assms by (simp add: compute_discount_accepted)
  qed
  have t: "0 \<le> a \<and> a \<le> 100 \<longrightarrow>
            map_sum id (map_option discount_amount)
              (compute_discount product quantity price
                 \<lparr>offer_type = TEN_PERCENT_DISCOUNT, argument = a\<rparr>)
            = Inr (Some (- (of_int (py_int quantity) * price * (a / 100))))"
    by (simp add: ten_percent_accepted [OF assms] q)
  have f: "py_int (5 / 2) = 2"
    by (simp add: py_int_def floor_eq_iff)
  have e: "compute_discount product (5 / 2) price offer = compute_discount product 2 price offer"
    by (simp add: compute_discount_def DiscountCalculator_init_def f) (simp add: py_int_def)
  from i c b s t f e show ?thesis by blast
qed

theorem quantity_truncated_witness:
  "(0::rat) < 5 / 2 \<and> (0::rat) \<le> 199 / 100
   \<and> DiscountCalculator_init apples (5 / 2) (199 / 100)
        \<lparr>offer_type = TEN_PERCENT_DISCOUNT, argument = 10\<rparr>
       = Inr \<lparr>dc_product = apples, dc_quantity = 2, dc_unit_price = 199 / 100,
               dc_offer = \<lparr>offer_type = TEN_PERCENT_DISCOUNT, argument = 10\<rparr>\<rparr>
   \<and> map_sum id (map_option discount_amount)
        (compute_discount apples (5 / 2) (199 / 100)
           \<lparr>offer_type = TEN_PERCENT_DISCOUNT, argument = 10\<rparr>)
       = Inr (Some (- (2 * (199 / 100) * (10 / 100))))"
proof -
  have h1: "(0::rat) < 5 / 2" and h2: "(0::rat) \<le> 199 / 100" by simp_all
  have f: "py_int (5 / 2) = 2" by (simp add: py_int_def floor_eq_iff)
  from quantity_truncated [OF h1 h2, where product = apples and a = 10 and quantity' = 2
      and offer = "\<lparr>offer_type = TEN_PERCENT_DISCOUNT, argument = 10\<rparr>"]
  show ?thesis by (simp add: f calculate_discount_def ten_percent_discount_def)
qed

section \<open>The cart\<close>

lemma run_cart_snoc: "run_cart (ops @ [op]) = apply_cart_op (run_cart ops) op"
  by (simp add: run_cart_def)




lemma apply_cart_op_distinct:
  "distinct (map fst (product_quantities c)) \<Longrightarrow>
   distinct (map fst (product_quantities (apply_cart_op c op)))"
  by (cases op) (simp_all add: add_item_def add_item_quantity_def distinct_update)

lemma run_cart_distinct: "distinct (map fst (product_quantities (run_cart ops)))"
proof (induction ops rule: rev_induct)
  case Nil
  show ?case by (simp add: run_cart_def ShoppingCart_init_def)
next
  case (snoc op ops)
  then show ?case by (simp add: run_cart_snoc apply_cart_op_distinct)
qed




section \<open>Offers over the merged quantities\<close>

lemma handle_offers_loop_Inr_computed:
  "handle_offers_loop pqs receipt offs cat = Inr receipt' \<Longrightarrow>
   (p, q) \<in> set pqs \<Longrightarrow> offs p = Some offer \<Longrightarrow>
   \<exists>price res. cat p = Some price \<and> compute_discount p q price offer = Inr res"
proof (induction pqs arbitrary: receipt)
  case Nil
  then show ?case by simp
next
  case (Cons x rest)
  obtain product quantity where x: "x = (product, quantity)" by (cases x)
  show ?case
  proof (cases "(p, q) = x")
    case True
    with Cons.prems(1,3) x show ?thesis
      by (auto simp add: unit_price_def split: option.splits sum.splits)
  next
    case False
    with Cons.prems(2) have r: "(p, q) \<in> set rest" by auto
    from Cons.prems(1) x obtain receipt'' where
      "handle_offers_loop rest receipt'' offs cat = Inr receipt'"
      by (auto split: option.splits sum.splits)
    from Cons.IH [OF this r Cons.prems(3)] show ?thesis .
  qed
qed

lemma handle_offers_loop_append:
  "handle_offers_loop (xs @ ys) r offs cat =
     (case handle_offers_loop xs r offs cat of
        Inl e \<Rightarrow> Inl e
      | Inr r' \<Rightarrow> handle_offers_loop ys r' offs cat)"
  by (induction xs r offs cat rule: handle_offers_loop.induct)
     (auto split: option.splits sum.splits)

text \<open>
  C4. Whatever the offer, also one of an unknown type, the constructor and with it the
  whole discount computation fail with the quantity-and-price \<^verbatim>\<open>ValueError\<close> when the
  quantity is at most 0 or the unit price is below 0: the check comes before the
  dispatch on the offer type. In a checkout the check is made on the entries of the
  merged-quantity map, in which every product occurs once: if \<^verbatim>\<open>handle_offers\<close>
  returns, every product of the map that has an offer has a catalog price of at least 0
  and a merged quantity above 0.
\<close>

theorem validation_before_dispatch:
  "(quantity \<le> 0 \<or> price < 0 \<longrightarrow>
      DiscountCalculator_init product quantity price offer
        = Inl (ValueError ''Quantity must be positive and unit price cannot be negative.'')
      \<and> compute_discount product quantity price offer
        = Inl (ValueError ''Quantity must be positive and unit price cannot be negative.''))
   \<and> distinct (map fst (product_quantities (run_cart ops)))
   \<and> (handle_offers (run_cart ops) receipt offs cat = Inr receipt'
        \<and> (p, q) \<in> set (product_quantities (run_cart ops)) \<and> offs p = Some offer' \<longrightarrow>
        (\<exists>price'. cat p = Some price' \<and> 0 < q \<and> 0 \<le> price'))"
proof -
  have a: "quantity \<le> 0 \<or> price < 0 \<longrightarrow>
      DiscountCalculator_init product quantity price offer
        = Inl (ValueError ''Quantity must be positive and unit price cannot be negative.'')
      \<and> compute_discount product quantity price offer
        = Inl (ValueError ''Quantity must be positive and unit price cannot be negative.'')"
    by (auto simp add: compute_discount_def DiscountCalculator_init_def)
  have b: "distinct (map fst (product_quantities (run_cart ops)))"
    by (rule run_cart_distinct)
  have c: "handle_offers (run_cart ops) receipt offs cat = Inr receipt'
        \<and> (p, q) \<in> set (product_quantities (run_cart ops)) \<and> offs p = Some offer' \<longrightarrow>
        (\<exists>price'. cat p = Some price' \<and> 0 < q \<and> 0 \<le> price')"
  proof
    assume h: "handle_offers (run_cart ops) receipt offs cat = Inr receipt'
        \<and> (p, q) \<in> set (product_quantities (run_cart ops)) \<and> offs p = Some offer'"
    then have "handle_offers_loop (product_quantities (run_cart ops)) receipt offs cat
        = Inr receipt'"
      by (simp add: handle_offers_def)
    from handle_offers_loop_Inr_computed [OF this] h obtain price' res
      where "cat p = Some price'" and "compute_discount p q price' offer' = Inr res"
      by blast
    then show "\<exists>price'. cat p = Some price' \<and> 0 < q \<and> 0 \<le> price'"
      by (blast dest: compute_discount_Inr_accepted)
  qed
  from a b c show ?thesis by blast
qed


theorem validation_before_dispatch_witness:
  "((0::rat) \<le> 0 \<or> (2::rat) < 0)
   \<and> compute_discount apples 0 2 \<lparr>offer_type = UNKNOWN_OFFER_TYPE 99, argument = 5\<rparr>
       = Inl (ValueError ''Quantity must be positive and unit price cannot be negative.'')
   \<and> handle_offers (run_cart [AddItemQuantity toothbrush (- 1), AddItemQuantity toothbrush 3])
        Receipt_init [toothbrush \<mapsto> \<lparr>offer_type = THREE_FOR_TWO, argument = 0\<rparr>] test_catalog
       = Inr Receipt_init
   \<and> (toothbrush, 2) \<in> set (product_quantities
         (run_cart [AddItemQuantity toothbrush (- 1), AddItemQuantity toothbrush 3]))
   \<and> test_catalog toothbrush = Some (99 / 100) \<and> (0::rat) < 2 \<and> (0::rat) \<le> 99 / 100"
proof -
  have h1: "(0::rat) \<le> 0 \<or> (2::rat) < 0" by simp
  have c: "run_cart [AddItemQuantity toothbrush (- 1), AddItemQuantity toothbrush 3]
           = \<lparr>cart_items = [\<lparr>pq_product = toothbrush, pq_quantity = - 1\<rparr>,
                              \<lparr>pq_product = toothbrush, pq_quantity = 3\<rparr>],
               product_quantities = [(toothbrush, 2)]\<rparr>"
    by (simp add: run_cart_def ShoppingCart_init_def add_item_quantity_def dict_get_def)
  have p: "test_catalog toothbrush = Some (99 / 100)"
    by (simp add: test_catalog_def toothbrush_def rice_def apples_def cherry_tomatoes_def)
  have h2: "handle_offers (run_cart [AddItemQuantity toothbrush (- 1), AddItemQuantity toothbrush 3])
        Receipt_init [toothbrush \<mapsto> \<lparr>offer_type = THREE_FOR_TWO, argument = 0\<rparr>] test_catalog
       = Inr Receipt_init"
    by (simp add: c handle_offers_def unit_price_def p compute_discount_def
        DiscountCalculator_init_def py_int_def calculate_discount_def
        three_for_two_discount_def calculate_group_discount_def)
  from h1 h2 c p validation_before_dispatch
    [where quantity = 0 and price = 2 and product = apples
       and offer = "\<lparr>offer_type = UNKNOWN_OFFER_TYPE 99, argument = 5\<rparr>"
       and ops = "[AddItemQuantity toothbrush (- 1), AddItemQuantity toothbrush 3]"
       and receipt = Receipt_init and receipt' = Receipt_init
       and offs = "[toothbrush \<mapsto> \<lparr>offer_type = THREE_FOR_TWO, argument = 0\<rparr>]"
       and cat = test_catalog and p = toothbrush and q = 2
       and offer' = "\<lparr>offer_type = THREE_FOR_TWO, argument = 0\<rparr>"]
  show ?thesis by simp
qed

section \<open>The receipt total\<close>








section \<open>Checkout\<close>










text \<open>
  C8 as stated fails: nothing catches the error. With a percentage of 150 on rice and
  a three-for-two offer on toothbrushes, a cart of one rice and three toothbrushes
  gets no receipt: checkout ends with the percentage \<^verbatim>\<open>ValueError\<close>.
\<close>

theorem checkout_error_counterexample:
  "checks_out_articles_from
     (add_special_offer
        (add_special_offer (Teller_init test_catalog) TEN_PERCENT_DISCOUNT rice 150)
        THREE_FOR_TWO toothbrush 0)
     (run_cart [AddItem rice, AddItemQuantity toothbrush 3])
   = Inl (ValueError ''Discount percentage must be between 0 and 100.'')"
  by code_simp

text \<open>
  C8, amended. If the discount computation fails for a product of the merged map that
  has an offer and a catalog price, checkout as a whole fails and returns no receipt;
  when the lines were priced and the products before it in the map went through, it
  fails with that very error, the products after it not being processed.
\<close>

theorem discount_error_aborts_checkout:
  assumes "(p, q) \<in> set (product_quantities cart)"
    and "offers teller p = Some offer"
    and "catalog teller p = Some price"
    and "compute_discount p q price offer = Inl e"
  shows "(\<exists>e'. checks_out_articles_from teller cart = Inl e')
       \<and> (add_cart_items_to_receipt teller cart Receipt_init = Inr r0
            \<and> product_quantities cart = before @ (p, q) # rest
            \<and> handle_offers_loop before r0 (offers teller) (catalog teller) = Inr r1
          \<longrightarrow> checks_out_articles_from teller cart = Inl e)"
proof -
  have a: "\<exists>e'. checks_out_articles_from teller cart = Inl e'"
  proof (cases "checks_out_articles_from teller cart")
    case (Inl e')
    then show ?thesis by simp
  next
    case (Inr receipt)
    then obtain r where "handle_offers_loop (product_quantities cart) r (offers teller)
        (catalog teller) = Inr receipt"
      by (auto simp add: checks_out_articles_from_def apply_offers_def handle_offers_def
          split: sum.splits)
    from handle_offers_loop_Inr_computed [OF this assms(1,2)] assms(3,4)
    show ?thesis by simp
  qed
  have b: "add_cart_items_to_receipt teller cart Receipt_init = Inr r0
            \<and> product_quantities cart = before @ (p, q) # rest
            \<and> handle_offers_loop before r0 (offers teller) (catalog teller) = Inr r1
          \<longrightarrow> checks_out_articles_from teller cart = Inl e"
    using assms(2,3,4)
    by (simp add: checks_out_articles_from_def apply_offers_def handle_offers_def
        handle_offers_loop_append unit_price_def)
  from a b show ?thesis by blast
qed

theorem discount_error_aborts_checkout_witness:
  "(rice, 1) \<in> set (product_quantities (run_cart [AddItem rice, AddItemQuantity toothbrush 3]))
   \<and> compute_discount rice 1 (299 / 100) \<lparr>offer_type = TEN_PERCENT_DISCOUNT, argument = 150\<rparr>
       = Inl (ValueError ''Discount percentage must be between 0 and 100.'')
   \<and> compute_discount toothbrush 3 (99 / 100) \<lparr>offer_type = THREE_FOR_TWO, argument = 0\<rparr>
       = Inr (Some \<lparr>discount_product = toothbrush,
                     description = [IntField 3, Lit '' for '', NumField (198 / 100)],
                     discount_amount = - (99 / 100)\<rparr>)
   \<and> (\<exists>e'. checks_out_articles_from
        (add_special_offer
           (add_special_offer (Teller_init test_catalog) TEN_PERCENT_DISCOUNT rice 150)
           THREE_FOR_TWO toothbrush 0)
        (run_cart [AddItem rice, AddItemQuantity toothbrush 3]) = Inl e')"
proof -
  have h1: "(rice, 1) \<in> set (product_quantities
              (run_cart [AddItem rice, AddItemQuantity toothbrush 3]))"
    by code_simp
  have h2: "offers (add_special_offer
           (add_special_offer (Teller_init test_catalog) TEN_PERCENT_DISCOUNT rice 150)
           THREE_FOR_TWO toothbrush 0) rice
           = Some \<lparr>offer_type = TEN_PERCENT_DISCOUNT, argument = 150\<rparr>"
    by code_simp
  have h3: "catalog (add_special_offer
           (add_special_offer (Teller_init test_catalog) TEN_PERCENT_DISCOUNT rice 150)
           THREE_FOR_TWO toothbrush 0) rice = Some (299 / 100)"
    by code_simp
  have h4: "compute_discount rice 1 (299 / 100)
              \<lparr>offer_type = TEN_PERCENT_DISCOUNT, argument = 150\<rparr>
       = Inl (ValueError ''Discount percentage must be between 0 and 100.'')"
    by code_simp
  have h5: "compute_discount toothbrush 3 (99 / 100) \<lparr>offer_type = THREE_FOR_TWO, argument = 0\<rparr>
       = Inr (Some \<lparr>discount_product = toothbrush,
                     description = [IntField 3, Lit '' for '', NumField (198 / 100)],
                     discount_amount = - (99 / 100)\<rparr>)"
    by code_simp
  from discount_error_aborts_checkout [OF h1 h2 h3 h4] h1 h4 h5 show ?thesis by blast
qed

end
